theory Spec2Isabelle
  imports Main
begin

section \<open>Strings\<close>

text \<open>
  Python strings are sequences of code points. A \<^typ>\<open>char\<close> stands for one code point
  in the range 0..255, so the model covers the texts drawn from that range; on it
  \<open>str.lower\<close> moves A..Z and the capital letters 192..214 and 216..222 up by 32 and
  leaves every other code point alone.
\<close>

definition lower_char :: "char \<Rightarrow> char" where
  "lower_char c =
     (let n = (of_char c :: nat)
      in if (65 \<le> n \<and> n \<le> 90) \<or> (192 \<le> n \<and> n \<le> 214) \<or> (216 \<le> n \<and> n \<le> 222)
         then char_of (n + 32) else c)"

definition lower :: "string \<Rightarrow> string" where
  "lower s = map lower_char s"

text \<open>\<open>str.isspace\<close> of a single code point below 256.\<close>

definition isspace :: "char \<Rightarrow> bool" where
  "isspace c =
     (let n = (of_char c :: nat)
      in (9 \<le> n \<and> n \<le> 13) \<or> (28 \<le> n \<and> n \<le> 32) \<or> n = 133 \<or> n = 160)"

text \<open>\<open>startswith k t\<close> is \<open>t.startswith(k)\<close>; \<open>contains k t\<close> is Python's \<open>k in t\<close>.\<close>

fun startswith :: "string \<Rightarrow> string \<Rightarrow> bool" where
  "startswith [] t = True"
| "startswith (c # k) [] = False"
| "startswith (c # k) (d # t) = (c = d \<and> startswith k t)"

fun contains :: "string \<Rightarrow> string \<Rightarrow> bool" where
  "contains k [] = (k = [])"
| "contains k (d # t) = (startswith k (d # t) \<or> contains k t)"

text \<open>\<open>join sep xs\<close> is \<open>sep.join(xs)\<close>.\<close>

fun join :: "string \<Rightarrow> string list \<Rightarrow> string" where
  "join sep [] = []"
| "join sep [x] = x"
| "join sep (x # y # ys) = x @ sep @ join sep (y # ys)"

section \<open>Topic classifier\<close>

text \<open>The dictionary literal of \<open>extract_topics\<close>, in its insertion order.\<close>

definition topic_keywords :: "(string \<times> string list) list" where
  "topic_keywords =
    [(''Finance'', [''finance'', ''market'', ''stock'', ''invest'', ''financial'', ''economy'',
        ''economic'', ''shares'', ''investors'', ''trading'', ''profit'', ''revenue'',
        ''earnings'']),
     (''Technology'', [''tech'', ''technology'', ''digital'', ''software'', ''hardware'', ''app'',
        ''device'', ''innovation'', ''platform'', ''product'', ''AI'',
        ''artificial intelligence'']),
     (''Automotive'', [''vehicle'', ''car'', ''automotive'', ''drive'', ''driving'', ''EV'',
        ''electric vehicle'', ''autonomous'', ''self-driving'', ''model'', ''battery'',
        ''charging'']),
     (''Regulation'', [''regulation'', ''regulatory'', ''compliance'', ''legal'', ''law'',
        ''lawsuit'', ''litigation'', ''court'', ''ruling'', ''guideline'', ''policy'',
        ''policies'']),
     (''Environment'', [''environment'', ''environmental'', ''climate'', ''green'',
        ''sustainable'', ''sustainability'', ''carbon'', ''emission'', ''renewable'',
        ''clean energy''])]"

text \<open>
  \<open>any_keyword kws t\<close> is \<open>any(keyword in t for keyword in kws)\<close>; \<open>scan_topics\<close> is
  the loop over the items of the dictionary, appending each matching topic.
\<close>

fun any_keyword :: "string list \<Rightarrow> string \<Rightarrow> bool" where
  "any_keyword [] t = False"
| "any_keyword (k # ks) t = (contains k t \<or> any_keyword ks t)"

fun scan_topics :: "(string \<times> string list) list \<Rightarrow> string \<Rightarrow> string list \<Rightarrow> string list" where
  "scan_topics [] text_lower found_topics = found_topics"
| "scan_topics ((topic, keywords) # rest) text_lower found_topics =
     scan_topics rest text_lower
       (if any_keyword keywords text_lower then found_topics @ [topic] else found_topics)"

definition extract_topics :: "string \<Rightarrow> string list" where
  "extract_topics text =
     (let found_topics = scan_topics topic_keywords (lower text) []
      in if found_topics = [] then [''General''] else found_topics)"

section \<open>Data model of the analysis engine\<close>

text \<open>
  An article is a Python dictionary; each key the engine may read is a field that is
  present (\<open>Some\<close>) or missing (\<open>None\<close>).
\<close>

record article =
  title :: "string option"
  summary :: "string option"
  source :: "string option"
  link :: "string option"
  date :: "string option"
  sentiment :: "string option"
  topics :: "string list option"

record topic_analysis =
  common_topics :: "string list"
  all_topics :: "string list"
  topic_frequency :: "(string \<times> nat) list"

record comparison_item =
  comparison :: string
  impact :: string

text \<open>
  The value under \<open>topic_overlap\<close> is a dictionary: either the empty one (\<open>None\<close>) or
  the one with the three keys of \<open>topic_analysis\<close>.
\<close>

record analysis =
  sentiment_distribution :: "(string \<times> nat) list"
  topic_overlap :: "topic_analysis option"
  coverage_differences :: "comparison_item list"

subsection \<open>Python containers\<close>

text \<open>
  A dictionary keeps its keys in insertion order: an association list with distinct
  keys. \<open>dict_set d k v\<close> is \<open>d[k] = v\<close>, \<open>dict_get d k dflt\<close> is \<open>d.get(k, dflt)\<close>.
  The keys are strings in the analysis of well-formed articles and arbitrary hashable
  values otherwise.
\<close>

fun dict_set :: "('k \<times> nat) list \<Rightarrow> 'k \<Rightarrow> nat \<Rightarrow> ('k \<times> nat) list" where
  "dict_set [] k v = [(k, v)]"
| "dict_set ((k', v') # d) k v = (if k' = k then (k', v) # d else (k', v') # dict_set d k v)"

fun dict_get :: "('k \<times> nat) list \<Rightarrow> 'k \<Rightarrow> nat \<Rightarrow> nat" where
  "dict_get [] k dflt = dflt"
| "dict_get ((k', v') # d) k dflt = (if k' = k then v' else dict_get d k dflt)"

text \<open>
  A set is a duplicate-free list. CPython enumerates a set of strings in an order that
  depends on the hashes of its members, which change from one run of the interpreter to
  the next; the model enumerates it in insertion order, which is one of the orders the
  code can show. So the order of \<open>all_topics\<close>, of \<open>common_topics\<close> and of the topic
  names joined into a sentence is not a property of the code, and every statement below
  about such a list speaks about its members, or compares it with another enumeration
  of the same set in the same run.
\<close>

definition set_add :: "'a list \<Rightarrow> 'a \<Rightarrow> 'a list" where
  "set_add S x = (if x \<in> set S then S else S @ [x])"

definition set_update :: "'a list \<Rightarrow> 'a list \<Rightarrow> 'a list" where
  "set_update S xs = foldl set_add S xs"

definition set_intersection :: "string list \<Rightarrow> string list \<Rightarrow> string list" where
  "set_intersection S T = filter (\<lambda>x. x \<in> set T) S"

definition set_difference :: "string list \<Rightarrow> string list \<Rightarrow> string list" where
  "set_difference S T = filter (\<lambda>x. x \<notin> set T) S"

text \<open>
  \<open>max_by k v d\<close> continues \<open>max(d, key=d.get)\<close> with \<open>k\<close> the best key so far and
  \<open>v\<close> its count: a later key replaces it only when its count is strictly greater.
\<close>

fun max_by :: "'k \<Rightarrow> nat \<Rightarrow> ('k \<times> nat) list \<Rightarrow> 'k" where
  "max_by k v [] = k"
| "max_by k v ((k', v') # d) = (if v < v' then max_by k' v' d else max_by k v d)"

section \<open>Comparative analysis\<close>

text \<open>\<open>article.get('sentiment', 'Unknown')\<close>.\<close>

definition get_sentiment :: "article \<Rightarrow> string" where
  "get_sentiment a = (case sentiment a of None \<Rightarrow> ''Unknown'' | Some s \<Rightarrow> s)"

text \<open>The text handed to the classifier: \<open>f"{title} {summary}"\<close>, a missing field read as the empty string.\<close>

definition combined_text :: "article \<Rightarrow> string" where
  "combined_text a =
     (case title a of None \<Rightarrow> [] | Some t \<Rightarrow> t) @ '' '' @
     (case summary a of None \<Rightarrow> [] | Some s \<Rightarrow> s)"

text \<open>\<open>a.get('topics', [])\<close>.\<close>

definition get_topics :: "article \<Rightarrow> string list" where
  "get_topics a = (case topics a of None \<Rightarrow> [] | Some ts \<Rightarrow> ts)"

text \<open>The tally loop over the articles, \<open>sentiment_counts\<close> being the loop state.\<close>

fun count_sentiments :: "article list \<Rightarrow> (string \<times> nat) list \<Rightarrow> (string \<times> nat) list" where
  "count_sentiments [] sentiment_counts = sentiment_counts"
| "count_sentiments (a # rest) sentiment_counts =
     count_sentiments rest
       (dict_set sentiment_counts (get_sentiment a)
          (dict_get sentiment_counts (get_sentiment a) 0 + 1))"

text \<open>
  The topic loop. Its state is the articles already visited, each with its \<open>topics\<close>
  key overwritten, the set \<open>all_topics\<close> and the list \<open>article_topics\<close>.
\<close>

fun topic_loop ::
  "article list \<Rightarrow> article list \<times> string list \<times> string list list \<Rightarrow>
     article list \<times> string list \<times> string list list" where
  "topic_loop [] st = st"
| "topic_loop (a # rest) (visited, all_ts, article_ts) =
     (let ts = extract_topics (combined_text a)
      in topic_loop rest
           (visited @ [a\<lparr>topics := Some ts\<rparr>], set_update all_ts ts, article_ts @ [ts]))"

text \<open>The loop that intersects \<open>common_topics\<close> with \<open>set(topics)\<close> of every article.\<close>

fun common_loop :: "string list list \<Rightarrow> string list \<Rightarrow> string list" where
  "common_loop [] common = common"
| "common_loop (ts # rest) common =
     common_loop rest (set_intersection common (set_update [] ts))"

text \<open>The loop over \<open>all_topics\<close> that fills \<open>topic_frequency\<close>.\<close>

fun frequency_loop ::
  "string list \<Rightarrow> string list list \<Rightarrow> (string \<times> nat) list \<Rightarrow> (string \<times> nat) list" where
  "frequency_loop [] article_ts freq = freq"
| "frequency_loop (topic # rest) article_ts freq =
     frequency_loop rest article_ts
       (dict_set freq topic (length (filter (\<lambda>article_topic. topic \<in> set article_topic) article_ts)))"

text \<open>The loops \<open>for a in pos_articles: pos_topics.update(a.get('topics', []))\<close>.\<close>

fun gather_topics :: "article list \<Rightarrow> string list \<Rightarrow> string list" where
  "gather_topics [] acc = acc"
| "gather_topics (a # rest) acc = gather_topics rest (set_update acc (get_topics a))"

definition focus_phrase :: "string list \<Rightarrow> string" where
  "focus_phrase unique = (if unique \<noteq> [] then join '', '' unique else ''various topics'')"

definition contrast_item :: "string list \<Rightarrow> string list \<Rightarrow> comparison_item" where
  "contrast_item pos_unique neg_unique =
     \<lparr>comparison = ''Positive articles focus on '' @ focus_phrase pos_unique @
        '', while negative articles focus on '' @ focus_phrase neg_unique @ ''.'',
      impact = ''This contrast shows different aspects of the company's public perception.''\<rparr>"

definition trend_item :: "string \<Rightarrow> comparison_item" where
  "trend_item max_sentiment =
     \<lparr>comparison = ''Overall coverage is predominantly '' @ lower max_sentiment @ ''.'',
      impact = ''The '' @ lower max_sentiment @ '' sentiment suggests '' @
        (if max_sentiment = ''Positive'' then ''a positive public perception''
         else if max_sentiment = ''Negative'' then ''a negative public perception''
         else ''a balanced public perception'') @ ''.''\<rparr>"

text \<open>
  The part of \<open>comparative_analysis\<close> under "Generate coverage differences", run on the
  articles as the topic loop left them. The source also builds \<open>neu_articles\<close>, which
  it never reads. \<open>max\<close> is reached only under \<open>if sentiment_counts\<close>, so it never
  sees an empty dictionary.
\<close>

definition coverage :: "article list \<Rightarrow> (string \<times> nat) list \<Rightarrow> comparison_item list" where
  "coverage articles sentiment_counts =
     (if 2 \<le> length articles then
        let sentiments = set_update [] (map get_sentiment articles)
        in if 2 \<le> length sentiments then
             let pos_articles = filter (\<lambda>a. sentiment a = Some ''Positive'') articles;
                 neg_articles = filter (\<lambda>a. sentiment a = Some ''Negative'') articles;
                 comparisons0 = [];
                 comparisons1 =
                   (if pos_articles \<noteq> [] \<and> neg_articles \<noteq> [] then
                      let pos_topics = gather_topics pos_articles [];
                          neg_topics = gather_topics neg_articles [];
                          pos_unique = set_difference pos_topics neg_topics;
                          neg_unique = set_difference neg_topics pos_topics
                      in comparisons0 @ [contrast_item pos_unique neg_unique]
                    else comparisons0)
             in (case sentiment_counts of
                   [] \<Rightarrow> comparisons1
                 | (k, v) # d \<Rightarrow> comparisons1 @ [trend_item (max_by k v d)])
           else []
      else [])"

text \<open>
  \<open>comparative_analysis\<close> returns the analysis and, since it assigns to
  \<open>article['topics']\<close>, changes the articles it was given: the model returns the
  articles as the call leaves them together with the result. A dictionary that occurs
  at two places of the list receives the same topics at both, as they are computed from
  its title and summary, which the call does not change; so the articles are modelled
  as values.
\<close>

definition comparative_analysis :: "article list \<Rightarrow> article list \<times> analysis" where
  "comparative_analysis articles =
     (if articles = [] then
        (articles, \<lparr>sentiment_distribution = [], topic_overlap = None, coverage_differences = []\<rparr>)
      else
        let sentiment_counts = count_sentiments articles [];
            (articles', all_ts, article_ts) = topic_loop articles ([], [], []);
            common = common_loop article_ts all_ts;
            overlap = \<lparr>common_topics = common, all_topics = all_ts,
                       topic_frequency = frequency_loop all_ts article_ts []\<rparr>
        in (articles',
            \<lparr>sentiment_distribution = sentiment_counts, topic_overlap = Some overlap,
             coverage_differences = coverage articles' sentiment_counts\<rparr>))"

section \<open>Comparative analysis of articles whose values need not be strings\<close>

text \<open>
  Nothing in \<open>comparative_analysis\<close> checks what an article holds under its keys. The
  records above fix the values to strings, as the fetch and classification stages
  produce them. Here a value under \<open>title\<close>, \<open>summary\<close> or \<open>sentiment\<close> is a string
  or \<open>None\<close>, and what the source raises is a result of its own. The definitions follow
  the same lines of the source as the ones above.
\<close>

datatype pyval = Str string | PyNone

datatype error = AttributeError

record raw_article =
  raw_title :: "pyval option"
  raw_summary :: "pyval option"
  raw_sentiment :: "pyval option"
  raw_topics :: "string list option"

record raw_analysis =
  raw_sentiment_distribution :: "(pyval \<times> nat) list"
  raw_topic_overlap :: "topic_analysis option"
  raw_coverage_differences :: "comparison_item list"

text \<open>How an f-string renders a value: \<open>None\<close> becomes the text "None".\<close>

fun py_format :: "pyval \<Rightarrow> string" where
  "py_format (Str s) = s"
| "py_format PyNone = ''None''"

text \<open>\<open>article.get('sentiment', 'Unknown')\<close>: the default is used for a missing key only.\<close>

definition raw_get_sentiment :: "raw_article \<Rightarrow> pyval" where
  "raw_get_sentiment a = (case raw_sentiment a of None \<Rightarrow> Str ''Unknown'' | Some v \<Rightarrow> v)"

definition raw_combined_text :: "raw_article \<Rightarrow> string" where
  "raw_combined_text a =
     py_format (case raw_title a of None \<Rightarrow> Str [] | Some t \<Rightarrow> t) @ '' '' @
     py_format (case raw_summary a of None \<Rightarrow> Str [] | Some s \<Rightarrow> s)"

definition raw_get_topics :: "raw_article \<Rightarrow> string list" where
  "raw_get_topics a = (case raw_topics a of None \<Rightarrow> [] | Some ts \<Rightarrow> ts)"

fun raw_count_sentiments :: "raw_article list \<Rightarrow> (pyval \<times> nat) list \<Rightarrow> (pyval \<times> nat) list" where
  "raw_count_sentiments [] sentiment_counts = sentiment_counts"
| "raw_count_sentiments (a # rest) sentiment_counts =
     raw_count_sentiments rest
       (dict_set sentiment_counts (raw_get_sentiment a)
          (dict_get sentiment_counts (raw_get_sentiment a) 0 + 1))"

fun raw_topic_loop ::
  "raw_article list \<Rightarrow> raw_article list \<times> string list \<times> string list list \<Rightarrow>
     raw_article list \<times> string list \<times> string list list" where
  "raw_topic_loop [] st = st"
| "raw_topic_loop (a # rest) (visited, all_ts, article_ts) =
     (let ts = extract_topics (raw_combined_text a)
      in raw_topic_loop rest
           (visited @ [a\<lparr>raw_topics := Some ts\<rparr>], set_update all_ts ts, article_ts @ [ts]))"

fun raw_gather_topics :: "raw_article list \<Rightarrow> string list \<Rightarrow> string list" where
  "raw_gather_topics [] acc = acc"
| "raw_gather_topics (a # rest) acc = raw_gather_topics rest (set_update acc (raw_get_topics a))"

text \<open>
  \<open>max_sentiment.lower()\<close> is the one call that can fail: a key of \<open>sentiment_counts\<close>
  that is \<open>None\<close> has no method \<open>lower\<close>.
\<close>

definition raw_coverage ::
  "raw_article list \<Rightarrow> (pyval \<times> nat) list \<Rightarrow> error + comparison_item list" where
  "raw_coverage articles sentiment_counts =
     (if 2 \<le> length articles then
        let sentiments = set_update [] (map raw_get_sentiment articles)
        in if 2 \<le> length sentiments then
             let pos_articles = filter (\<lambda>a. raw_sentiment a = Some (Str ''Positive'')) articles;
                 neg_articles = filter (\<lambda>a. raw_sentiment a = Some (Str ''Negative'')) articles;
                 comparisons0 = [];
                 comparisons1 =
                   (if pos_articles \<noteq> [] \<and> neg_articles \<noteq> [] then
                      let pos_topics = raw_gather_topics pos_articles [];
                          neg_topics = raw_gather_topics neg_articles [];
                          pos_unique = set_difference pos_topics neg_topics;
                          neg_unique = set_difference neg_topics pos_topics
                      in comparisons0 @ [contrast_item pos_unique neg_unique]
                    else comparisons0)
             in (case sentiment_counts of
                   [] \<Rightarrow> Inr comparisons1
                 | (k, v) # d \<Rightarrow>
                     (case max_by k v d of
                        Str max_sentiment \<Rightarrow> Inr (comparisons1 @ [trend_item max_sentiment])
                      | PyNone \<Rightarrow> Inl AttributeError))
           else Inr []
      else Inr [])"

definition raw_comparative_analysis :: "raw_article list \<Rightarrow> error + raw_article list \<times> raw_analysis" where
  "raw_comparative_analysis articles =
     (if articles = [] then
        Inr (articles,
             \<lparr>raw_sentiment_distribution = [], raw_topic_overlap = None,
              raw_coverage_differences = []\<rparr>)
      else
        let sentiment_counts = raw_count_sentiments articles [];
            (articles', all_ts, article_ts) = raw_topic_loop articles ([], [], []);
            common = common_loop article_ts all_ts;
            overlap = \<lparr>common_topics = common, all_topics = all_ts,
                       topic_frequency = frequency_loop all_ts article_ts []\<rparr>
        in (case raw_coverage articles' sentiment_counts of
              Inl e \<Rightarrow> Inl e
            | Inr comparisons \<Rightarrow>
                Inr (articles',
                     \<lparr>raw_sentiment_distribution = sentiment_counts,
                      raw_topic_overlap = Some overlap,
                      raw_coverage_differences = comparisons\<rparr>)))"

text \<open>
  A well-formed article seen as one whose values need not be strings, and a dictionary
  with string keys seen as one with arbitrary keys: used to compare the two analyses.
\<close>

definition to_raw :: "article \<Rightarrow> raw_article" where
  "to_raw a =
     \<lparr>raw_title = map_option Str (title a), raw_summary = map_option Str (summary a),
      raw_sentiment = map_option Str (sentiment a), raw_topics = topics a\<rparr>"

definition str_keys :: "(string \<times> nat) list \<Rightarrow> (pyval \<times> nat) list" where
  "str_keys d = map (\<lambda>(k, v). (Str k, v)) d"

section \<open>Properties of the string operations\<close>

lemma startswith_iff: "startswith k t \<longleftrightarrow> (\<exists>s. t = k @ s)"
  by (induction k t rule: startswith.induct) auto

text \<open>\<open>contains\<close> decides the substring relation.\<close>

lemma contains_iff: "contains k t \<longleftrightarrow> (\<exists>p s. t = p @ k @ s)"
proof (induction t)
  case Nil
  show ?case by simp
next
  case (Cons d t)
  show ?case
  proof
    assume "contains k (d # t)"
    then consider "startswith k (d # t)" | "contains k t" by auto
    then show "\<exists>p s. d # t = p @ k @ s"
    proof cases
      case 1
      then obtain s where "d # t = k @ s" by (auto simp: startswith_iff)
      then have "d # t = [] @ k @ s" by simp
      then show ?thesis by blast
    next
      case 2
      then obtain p s where "t = p @ k @ s" using Cons.IH by blast
      then have "d # t = (d # p) @ k @ s" by simp
      then show ?thesis by blast
    qed
  next
    assume "\<exists>p s. d # t = p @ k @ s"
    then obtain p s where ps: "d # t = p @ k @ s" by blast
    show "contains k (d # t)"
    proof (cases p)
      case Nil
      with ps have "startswith k (d # t)" by (auto simp: startswith_iff)
      then show ?thesis by simp
    next
      case (Cons e q)
      with ps have "t = q @ k @ s" by simp
      then have "contains k t" using Cons.IH by blast
      then show ?thesis by simp
    qed
  qed
qed

lemma contains_set: "contains k t \<Longrightarrow> set k \<subseteq> set t"
  by (auto simp: contains_iff)

lemma lower_char_not_upper: "(of_char (lower_char c) :: nat) \<notin> {65..90}"
  unfolding lower_char_def Let_def by auto

lemma isspace_lower_char: "isspace c \<Longrightarrow> lower_char c = c"
  unfolding lower_char_def isspace_def Let_def by auto

lemma upper_not_in_lower: "(of_char c :: nat) \<in> {65..90} \<Longrightarrow> c \<notin> set (lower s)"
  using lower_char_not_upper by (auto simp: lower_def)

lemma upper_keyword_never_matches:
  assumes "c \<in> set k" and "(of_char c :: nat) \<in> {65..90}"
  shows "\<not> contains k (lower s)"
  using assms contains_set upper_not_in_lower by blast

section \<open>Properties of the topic classifier\<close>

lemma any_keyword_iff: "any_keyword kws t \<longleftrightarrow> (\<exists>k\<in>set kws. contains k t)"
  by (induction kws) auto

lemma scan_topics_filter:
  "scan_topics tbl t acc = acc @ map fst (filter (\<lambda>(topic, kws). any_keyword kws t) tbl)"
  by (induction tbl t acc rule: scan_topics.induct) auto

lemma general_not_key: "''General'' \<notin> fst ` set topic_keywords"
  by (simp add: topic_keywords_def)

lemma keywords_have_nonspace:
  "(topic, kws) \<in> set topic_keywords \<Longrightarrow> k \<in> set kws \<Longrightarrow> \<exists>c\<in>set k. \<not> isspace c"
  by (auto simp: topic_keywords_def isspace_def)

lemma extract_topics_cases:
  "extract_topics text =
     (if \<exists>(topic, kws)\<in>set topic_keywords. any_keyword kws (lower text)
      then map fst (filter (\<lambda>(topic, kws). any_keyword kws (lower text)) topic_keywords)
      else [''General''])"
  by (auto simp: extract_topics_def scan_topics_filter Let_def filter_empty_conv)

lemma extract_topics_nonempty: "extract_topics text \<noteq> []"
  by (auto simp: extract_topics_cases filter_empty_conv)

lemma extract_topics_general_iff:
  "extract_topics text = [''General''] \<longleftrightarrow>
     \<not> (\<exists>(topic, kws)\<in>set topic_keywords. any_keyword kws (lower text))"
proof (cases "\<exists>(topic, kws)\<in>set topic_keywords. any_keyword kws (lower text)")
  case True
  let ?found = "map fst (filter (\<lambda>(topic, kws). any_keyword kws (lower text)) topic_keywords)"
  have "set ?found \<subseteq> fst ` set topic_keywords" by auto
  then have "''General'' \<notin> set ?found" using general_not_key by blast
  then have "?found \<noteq> [''General'']" by (metis list.set_intros(1))
  with True show ?thesis by (simp add: extract_topics_cases)
next
  case False
  then show ?thesis by (simp add: extract_topics_cases)
qed

lemma whitespace_no_keyword:
  assumes ws: "\<forall>c\<in>set text. isspace c"
    and tk: "(topic, kws) \<in> set topic_keywords"
  shows "\<not> any_keyword kws (lower text)"
proof
  assume "any_keyword kws (lower text)"
  then obtain k where k: "k \<in> set kws" "contains k (lower text)"
    by (auto simp: any_keyword_iff)
  from keywords_have_nonspace[OF tk k(1)] obtain c where c: "c \<in> set k" "\<not> isspace c"
    by blast
  from k(2) c(1) have "c \<in> set (lower text)" using contains_set by blast
  then obtain d where d: "d \<in> set text" "c = lower_char d" by (auto simp: lower_def)
  with ws have "isspace d" by blast
  then have "c = d" using d(2) by (simp add: isspace_lower_char)
  with c(2) \<open>isspace d\<close> show False by simp
qed

text \<open>
  C8: \<open>extract_topics\<close> returns a non-empty topic list for every text; the result is
  the single topic General exactly when no keyword of the table is a substring of the
  lower-cased text; a text made of whitespace only (the empty text included) yields General.
\<close>

theorem extract_topics_total_general:
  "extract_topics text \<noteq> [] \<and>
   (extract_topics text = [''General''] \<longleftrightarrow>
      (\<forall>(topic, kws)\<in>set topic_keywords. \<forall>k\<in>set kws. \<not> (\<exists>p s. lower text = p @ k @ s))) \<and>
   ((\<forall>c\<in>set text. isspace c) \<longrightarrow> extract_topics text = [''General''])"
proof (intro conjI impI)
  show "extract_topics text \<noteq> []" by (rule extract_topics_nonempty)
next
  show "extract_topics text = [''General''] \<longleftrightarrow>
      (\<forall>(topic, kws)\<in>set topic_keywords. \<forall>k\<in>set kws. \<not> (\<exists>p s. lower text = p @ k @ s))"
    unfolding extract_topics_general_iff any_keyword_iff contains_iff by blast
next
  assume "\<forall>c\<in>set text. isspace c"
  then have "\<not> (\<exists>(topic, kws)\<in>set topic_keywords. any_keyword kws (lower text))"
    using whitespace_no_keyword by blast
  then show "extract_topics text = [''General'']"
    using extract_topics_general_iff by blast
qed

theorem extract_topics_total_general_witness:
  "set ''  '' \<subseteq> Collect isspace \<and> extract_topics ''  '' = [''General''] \<and>
   extract_topics ''  '' \<noteq> []"
proof -
  have ws: "\<forall>c\<in>set ''  ''. isspace c" by (simp add: isspace_def)
  from extract_topics_total_general[of "''  ''"] ws
  have "extract_topics ''  '' = [''General'']" by blast
  with ws show ?thesis by auto
qed

text \<open>
  C10: the keywords "AI" (Technology) and "EV" (Automotive) are tested against the
  lower-cased text, which holds no capital letter, so neither matches any text; the
  texts "AI" and "EV" themselves are classified as General.
\<close>

theorem uppercase_keywords_never_match:
  "''AI'' \<in> set (the (map_of topic_keywords ''Technology'')) \<and>
   ''EV'' \<in> set (the (map_of topic_keywords ''Automotive'')) \<and>
   \<not> contains ''AI'' (lower text) \<and> \<not> contains ''EV'' (lower text) \<and>
   extract_topics ''AI'' = [''General''] \<and> extract_topics ''EV'' = [''General'']"
proof (intro conjI)
  show "''AI'' \<in> set (the (map_of topic_keywords ''Technology''))"
    by (simp add: topic_keywords_def)
  show "''EV'' \<in> set (the (map_of topic_keywords ''Automotive''))"
    by (simp add: topic_keywords_def)
  show "\<not> contains ''AI'' (lower text)"
    by (rule upper_keyword_never_matches[of "CHR ''A''"]) simp_all
  show "\<not> contains ''EV'' (lower text)"
    by (rule upper_keyword_never_matches[of "CHR ''E''"]) simp_all
  show "extract_topics ''AI'' = [''General'']" by code_simp
  show "extract_topics ''EV'' = [''General'']" by code_simp
qed

section \<open>The empty article list\<close>

text \<open>
  C1 (as the code has it): on the empty list \<open>comparative_analysis\<close> returns at once,
  with an empty sentiment distribution, an empty coverage list and the empty dictionary
  as topic overlap, which has none of the keys \<open>common_topics\<close>, \<open>all_topics\<close>,
  \<open>topic_frequency\<close>; no article is touched.
\<close>

theorem comparative_analysis_empty:
  "comparative_analysis [] =
     ([], \<lparr>sentiment_distribution = [], topic_overlap = None, coverage_differences = []\<rparr>)"
  by (simp add: comparative_analysis_def)

text \<open>
  The topic overlap of the empty list is not the record with three empty entries.
\<close>

theorem comparative_analysis_empty_overlap_counterexample:
  "topic_overlap (snd (comparative_analysis [])) \<noteq>
     Some \<lparr>common_topics = [], all_topics = [], topic_frequency = []\<rparr>"
  by (simp add: comparative_analysis_def)

section \<open>Properties of the containers\<close>

lemma set_set_add: "set (set_add S x) = insert x (set S)"
  by (auto simp: set_add_def)

lemma distinct_set_add: "distinct S \<Longrightarrow> distinct (set_add S x)"
  by (simp add: set_add_def)

lemma set_set_update: "set (set_update S xs) = set S \<union> set xs"
  unfolding set_update_def
  by (induction xs arbitrary: S) (auto simp: set_set_add)

lemma distinct_set_update: "distinct S \<Longrightarrow> distinct (set_update S xs)"
  unfolding set_update_def
  by (induction xs arbitrary: S) (auto simp: distinct_set_add)

lemma set_update_Nil: "set_update S [] = S"
  by (simp add: set_update_def)

lemma set_update_append: "set_update S (xs @ ys) = set_update (set_update S xs) ys"
  by (simp add: set_update_def)

lemma length_set_update_empty: "length (set_update [] xs) = card (set xs)"
proof -
  have "distinct (set_update [] xs)" by (simp add: distinct_set_update)
  then have "length (set_update [] xs) = card (set (set_update [] xs))"
    by (simp add: distinct_card)
  then show ?thesis by (simp add: set_set_update)
qed

lemma set_set_intersection: "set (set_intersection S T) = set S \<inter> set T"
  by (auto simp: set_intersection_def)

lemma set_set_difference: "set (set_difference S T) = set S - set T"
  by (auto simp: set_difference_def)

lemma map_of_dict_set: "map_of (dict_set d k v) = (map_of d)(k \<mapsto> v)"
  by (induction d k v rule: dict_set.induct) auto

lemma dict_get_map_of: "dict_get d k dflt = (case map_of d k of None \<Rightarrow> dflt | Some v \<Rightarrow> v)"
  by (induction d k dflt rule: dict_get.induct) auto

lemma keys_dict_set: "fst ` set (dict_set d k v) = insert k (fst ` set d)"
  by (induction d k v rule: dict_set.induct) auto

lemma distinct_dict_set: "distinct (map fst d) \<Longrightarrow> distinct (map fst (dict_set d k v))"
proof (induction d k v rule: dict_set.induct)
  case (1 k v)
  show ?case by simp
next
  case (2 k' v' d k v)
  have "fst ` set (dict_set d k v) = insert k (fst ` set d)" by (rule keys_dict_set)
  with 2 show ?case by auto
qed

lemma set_dict_set: "set (dict_set d k v) \<subseteq> insert (k, v) (set d)"
  by (induction d k v rule: dict_set.induct) auto

lemma dict_set_fresh: "k \<notin> fst ` set d \<Longrightarrow> dict_set d k v = d @ [(k, v)]"
  by (induction d k v rule: dict_set.induct) auto

lemma sum_dict_incr:
  "sum_list (map snd (dict_set d k (dict_get d k 0 + 1))) = sum_list (map snd d) + 1"
  by (induction d) auto

lemma dict_get_dict_set:
  "dict_get (dict_set d k v) k' dflt = (if k' = k then v else dict_get d k' dflt)"
  by (simp add: dict_get_map_of map_of_dict_set)

text \<open>\<open>max_by\<close> returns a key whose count is the greatest of all.\<close>

lemma max_by_greatest:
  "\<exists>c. (max_by k v d, c) \<in> set ((k, v) # d) \<and> (\<forall>(k', v')\<in>set ((k, v) # d). v' \<le> c)"
proof (induction d arbitrary: k v)
  case Nil
  show ?case by simp
next
  case (Cons kv d)
  obtain k' v' where kv: "kv = (k', v')" by (cases kv)
  show ?case
  proof (cases "v < v'")
    case True
    from Cons.IH[of k' v'] obtain c where
      c: "(max_by k' v' d, c) \<in> set ((k', v') # d)" "\<forall>(a, b)\<in>set ((k', v') # d). b \<le> c"
      by blast
    from c(2) have "v' \<le> c" by auto
    with True have "v \<le> c" by simp
    with c True kv show ?thesis by auto
  next
    case False
    from Cons.IH[of k v] obtain c where
      c: "(max_by k v d, c) \<in> set ((k, v) # d)" "\<forall>(a, b)\<in>set ((k, v) # d). b \<le> c"
      by blast
    from c(2) have "v \<le> c" by auto
    with False have "v' \<le> c" by simp
    with c False kv show ?thesis by auto
  qed
qed

section \<open>Properties of the loops\<close>

lemma count_sentiments_get:
  "dict_get (count_sentiments xs sc) s 0 =
     dict_get sc s 0 + length (filter (\<lambda>a. get_sentiment a = s) xs)"
  by (induction xs arbitrary: sc) (auto simp: dict_get_dict_set)

lemma count_sentiments_keys:
  "fst ` set (count_sentiments xs sc) = fst ` set sc \<union> get_sentiment ` set xs"
  by (induction xs arbitrary: sc) (auto simp: keys_dict_set)

lemma count_sentiments_distinct:
  "distinct (map fst sc) \<Longrightarrow> distinct (map fst (count_sentiments xs sc))"
  by (induction xs arbitrary: sc) (auto simp: distinct_dict_set)

lemma count_sentiments_sum:
  "sum_list (map snd (count_sentiments xs sc)) = sum_list (map snd sc) + length xs"
  by (induction xs arbitrary: sc) (simp_all add: sum_dict_incr[simplified])

lemma count_sentiments_positive:
  "0 \<notin> snd ` set sc \<Longrightarrow> 0 \<notin> snd ` set (count_sentiments xs sc)"
proof (induction xs arbitrary: sc)
  case Nil
  then show ?case by simp
next
  case (Cons a xs)
  let ?sc' = "dict_set sc (get_sentiment a) (dict_get sc (get_sentiment a) 0 + 1)"
  have "set ?sc' \<subseteq> insert (get_sentiment a, dict_get sc (get_sentiment a) 0 + 1) (set sc)"
    by (rule set_dict_set)
  with Cons.prems have "0 \<notin> snd ` set ?sc'" by fastforce
  then show ?case using Cons.IH by simp
qed

lemma count_sentiments_nonempty: "xs \<noteq> [] \<Longrightarrow> count_sentiments xs [] \<noteq> []"
proof -
  assume "xs \<noteq> []"
  then have "get_sentiment ` set xs \<noteq> {}" by simp
  then have "fst ` set (count_sentiments xs []) \<noteq> {}" by (simp add: count_sentiments_keys)
  then show ?thesis by auto
qed

lemma topic_loop_eq:
  "topic_loop xs (visited, all_ts, article_ts) =
     (visited @ map (\<lambda>a. a\<lparr>topics := Some (extract_topics (combined_text a))\<rparr>) xs,
      set_update all_ts (concat (map (\<lambda>a. extract_topics (combined_text a)) xs)),
      article_ts @ map (\<lambda>a. extract_topics (combined_text a)) xs)"
  by (induction xs arbitrary: visited all_ts article_ts)
     (auto simp: Let_def set_update_append set_update_Nil)

lemma set_common_loop: "set (common_loop tss common) = set common \<inter> (\<Inter>ts\<in>set tss. set ts)"
  by (induction tss arbitrary: common) (auto simp: set_set_intersection set_set_update)

lemma frequency_loop_eq:
  "distinct ts \<Longrightarrow> set ts \<inter> fst ` set freq = {} \<Longrightarrow>
   frequency_loop ts article_ts freq =
     freq @ map (\<lambda>t. (t, length (filter (\<lambda>article_topic. t \<in> set article_topic) article_ts))) ts"
proof (induction ts arbitrary: freq)
  case Nil
  show ?case by simp
next
  case (Cons t ts)
  let ?n = "length (filter (\<lambda>article_topic. t \<in> set article_topic) article_ts)"
  from Cons.prems have fresh: "t \<notin> fst ` set freq" by auto
  then have step: "dict_set freq t ?n = freq @ [(t, ?n)]" by (rule dict_set_fresh)
  from Cons.prems have "distinct ts" "set ts \<inter> fst ` set (freq @ [(t, ?n)]) = {}" by auto
  from Cons.IH[OF this] step show ?case by simp
qed

lemma set_gather_topics:
  "set (gather_topics xs acc) = set acc \<union> (\<Union>a\<in>set xs. set (get_topics a))"
  by (induction xs arbitrary: acc) (auto simp: set_set_update)

section \<open>The analysis of a non-empty list\<close>

lemma comparative_analysis_nonempty:
  assumes "articles \<noteq> []"
  shows "comparative_analysis articles =
     (map (\<lambda>a. a\<lparr>topics := Some (extract_topics (combined_text a))\<rparr>) articles,
      \<lparr>sentiment_distribution = count_sentiments articles [],
       topic_overlap = Some
         \<lparr>common_topics =
            common_loop (map (\<lambda>a. extract_topics (combined_text a)) articles)
              (set_update [] (concat (map (\<lambda>a. extract_topics (combined_text a)) articles))),
          all_topics = set_update [] (concat (map (\<lambda>a. extract_topics (combined_text a)) articles)),
          topic_frequency =
            frequency_loop
              (set_update [] (concat (map (\<lambda>a. extract_topics (combined_text a)) articles)))
              (map (\<lambda>a. extract_topics (combined_text a)) articles) []\<rparr>,
       coverage_differences =
         coverage (map (\<lambda>a. a\<lparr>topics := Some (extract_topics (combined_text a))\<rparr>) articles)
           (count_sentiments articles [])\<rparr>)"
  using assms by (simp add: comparative_analysis_def topic_loop_eq Let_def)

lemma sentiment_distribution_eq:
  "sentiment_distribution (snd (comparative_analysis articles)) = count_sentiments articles []"
proof (cases "articles = []")
  case True
  then show ?thesis by (simp add: comparative_analysis_def)
next
  case False
  then show ?thesis by (simp add: comparative_analysis_nonempty)
qed

lemma retagged_articles_eq:
  "fst (comparative_analysis articles) =
     map (\<lambda>a. a\<lparr>topics := Some (extract_topics (combined_text a))\<rparr>) articles"
proof (cases "articles = []")
  case True
  then show ?thesis by (simp add: comparative_analysis_def)
next
  case False
  then show ?thesis by (simp add: comparative_analysis_nonempty)
qed

lemma get_sentiment_topics_update [simp]: "get_sentiment (a\<lparr>topics := ts\<rparr>) = get_sentiment a"
  by (simp add: get_sentiment_def)

lemma combined_text_topics_update [simp]: "combined_text (a\<lparr>topics := ts\<rparr>) = combined_text a"
  by (simp add: combined_text_def)

lemma count_sentiments_topics_update:
  "count_sentiments (map (\<lambda>a. a\<lparr>topics := f a\<rparr>) xs) sc = count_sentiments xs sc"
  by (induction xs arbitrary: sc) simp_all

text \<open>The topics an article carries on entry have no influence on the result.\<close>

lemma comparative_analysis_topics_irrelevant:
  "snd (comparative_analysis (map (\<lambda>a. a\<lparr>topics := f a\<rparr>) articles)) =
   snd (comparative_analysis articles)"
proof (cases "articles = []")
  case True
  then show ?thesis by simp
next
  case False
  then have ne: "map (\<lambda>a. a\<lparr>topics := f a\<rparr>) articles \<noteq> []" by simp
  show ?thesis
    unfolding comparative_analysis_nonempty[OF False] comparative_analysis_nonempty[OF ne]
    by (simp add: count_sentiments_topics_update comp_def)
qed

text \<open>
  C2 (as the code has it): \<open>comparative_analysis\<close> is not free of effects. It
  overwrites the \<open>topics\<close> entry of every article it is given with the topics classified
  from the article's title and summary, and leaves every other entry as it was.
  Running the analysis again on the articles as the first run left them gives the same
  result.
\<close>

theorem comparative_analysis_overwrites_topics:
  "fst (comparative_analysis articles) =
     map (\<lambda>a. a\<lparr>topics := Some (extract_topics (combined_text a))\<rparr>) articles \<and>
   snd (comparative_analysis (fst (comparative_analysis articles))) =
     snd (comparative_analysis articles)"
proof -
  have eq: "fst (comparative_analysis articles) =
     map (\<lambda>a. a\<lparr>topics := Some (extract_topics (combined_text a))\<rparr>) articles"
    by (rule retagged_articles_eq)
  show ?thesis
    unfolding eq using eq comparative_analysis_topics_irrelevant by simp
qed

text \<open>An article that enters without topics leaves with a topic list attached.\<close>

theorem comparative_analysis_mutates_counterexample:
  "fst (comparative_analysis
     [\<lparr>title = Some ''Stock rally'', summary = Some ''Shares rise'', source = Some ''Wire'',
       link = Some ''#'', date = Some ''today'', sentiment = Some ''Positive'',
       topics = None\<rparr>]) \<noteq>
     [\<lparr>title = Some ''Stock rally'', summary = Some ''Shares rise'', source = Some ''Wire'',
       link = Some ''#'', date = Some ''today'', sentiment = Some ''Positive'',
       topics = None\<rparr>]"
  by (simp add: comparative_analysis_nonempty)

text \<open>
  C3: the counts of the sentiment distribution add up to the number of articles, its
  keys are exactly the sentiment labels that occur in the list, no key occurs twice and
  no count is zero.
\<close>

theorem sentiment_distribution_total_sparse:
  "sum_list (map snd (sentiment_distribution (snd (comparative_analysis articles)))) =
     length articles \<and>
   fst ` set (sentiment_distribution (snd (comparative_analysis articles))) =
     get_sentiment ` set articles \<and>
   distinct (map fst (sentiment_distribution (snd (comparative_analysis articles)))) \<and>
   0 \<notin> snd ` set (sentiment_distribution (snd (comparative_analysis articles)))"
  unfolding sentiment_distribution_eq
  by (simp add: count_sentiments_sum count_sentiments_keys count_sentiments_distinct
      count_sentiments_positive)

section \<open>Topic overlap\<close>

lemma all_topics_members:
  "set (set_update [] (concat (map (\<lambda>a. extract_topics (combined_text a)) articles))) =
     (\<Union>a\<in>set articles. set (extract_topics (combined_text a)))"
  by (simp add: set_set_update)

lemma common_topics_members:
  assumes "articles \<noteq> []"
  shows "set (common_loop (map (\<lambda>a. extract_topics (combined_text a)) articles)
           (set_update [] (concat (map (\<lambda>a. extract_topics (combined_text a)) articles)))) =
         (\<Inter>a\<in>set articles. set (extract_topics (combined_text a)))"
proof -
  from assms obtain a where "a \<in> set articles" by (cases articles) auto
  then have "(\<Inter>a\<in>set articles. set (extract_topics (combined_text a))) \<subseteq>
             (\<Union>a\<in>set articles. set (extract_topics (combined_text a)))"
    by blast
  then show ?thesis
    unfolding set_common_loop all_topics_members by auto
qed

lemma topic_frequency_counts:
  "frequency_loop
     (set_update [] (concat (map (\<lambda>a. extract_topics (combined_text a)) articles)))
     (map (\<lambda>a. extract_topics (combined_text a)) articles) [] =
   map (\<lambda>t. (t, length (filter (\<lambda>a. t \<in> set (extract_topics (combined_text a))) articles)))
     (set_update [] (concat (map (\<lambda>a. extract_topics (combined_text a)) articles)))"
proof -
  let ?all = "set_update [] (concat (map (\<lambda>a. extract_topics (combined_text a)) articles))"
  have d: "distinct ?all" by (simp add: distinct_set_update)
  have len: "length (filter (\<lambda>article_topic. t \<in> set article_topic)
                 (map (\<lambda>a. extract_topics (combined_text a)) articles)) =
        length (filter (\<lambda>a. t \<in> set (extract_topics (combined_text a))) articles)" for t
    by (simp add: filter_map comp_def)
  from d have "frequency_loop ?all (map (\<lambda>a. extract_topics (combined_text a)) articles) [] =
      [] @ map (\<lambda>t. (t, length (filter (\<lambda>article_topic. t \<in> set article_topic)
                 (map (\<lambda>a. extract_topics (combined_text a)) articles)))) ?all"
    by (intro frequency_loop_eq) simp_all
  then show ?thesis by (simp only: len append_Nil)
qed

text \<open>
  C4: whenever the topic overlap has its entries, which it has for every non-empty list,
  each key of \<open>topic_frequency\<close> is a member of \<open>all_topics\<close> and every common topic is a
  member of \<open>all_topics\<close>. (For the empty list the overlap is the empty dictionary and
  has no entry to speak of.)
\<close>

theorem topic_overlap_invariant:
  "(articles \<noteq> [] \<longrightarrow> topic_overlap (snd (comparative_analysis articles)) \<noteq> None) \<and>
   (\<forall>ov. topic_overlap (snd (comparative_analysis articles)) = Some ov \<longrightarrow>
      fst ` set (topic_frequency ov) \<subseteq> set (all_topics ov) \<and>
      set (common_topics ov) \<subseteq> set (all_topics ov))"
proof (cases "articles = []")
  case True
  then show ?thesis by (simp add: comparative_analysis_def)
next
  case False
  have "fst ` set (map (\<lambda>t. (t, g t)) ts) \<subseteq> set ts" for g :: "string \<Rightarrow> nat" and ts
    by auto
  moreover have "set (common_loop tss c) \<subseteq> set c" for tss c
    by (simp add: set_common_loop)
  ultimately show ?thesis
    using False by (simp add: comparative_analysis_nonempty topic_frequency_counts)
qed

theorem topic_overlap_invariant_witness:
  "\<exists>ov. topic_overlap (snd (comparative_analysis
       [\<lparr>title = Some ''Stock rally'', summary = Some ''Shares rise'', source = None,
         link = None, date = None, sentiment = Some ''Positive'', topics = None\<rparr>,
        \<lparr>title = Some ''Stock recall'', summary = Some ''Lawsuit filed'', source = None,
         link = None, date = None, sentiment = Some ''Negative'', topics = None\<rparr>])) = Some ov \<and>
     set (all_topics ov) = {''Finance'', ''Regulation''} \<and>
     fst ` set (topic_frequency ov) \<subseteq> set (all_topics ov) \<and>
     set (common_topics ov) \<subseteq> set (all_topics ov)"
proof -
  let ?as = "[\<lparr>title = Some ''Stock rally'', summary = Some ''Shares rise'', source = None,
         link = None, date = None, sentiment = Some ''Positive'', topics = None\<rparr>,
        \<lparr>title = Some ''Stock recall'', summary = Some ''Lawsuit filed'', source = None,
         link = None, date = None, sentiment = Some ''Negative'', topics = None\<rparr>]"
  have t1: "extract_topics ''Stock rally Shares rise'' = [''Finance'']" by code_simp
  have t2: "extract_topics ''Stock recall Lawsuit filed'' = [''Finance'', ''Regulation'']"
    by code_simp
  have "?as \<noteq> []" by simp
  then obtain ov where ov: "topic_overlap (snd (comparative_analysis ?as)) = Some ov"
    using topic_overlap_invariant[of ?as] by blast
  then have inv: "fst ` set (topic_frequency ov) \<subseteq> set (all_topics ov) \<and>
      set (common_topics ov) \<subseteq> set (all_topics ov)"
    using topic_overlap_invariant[of ?as] by blast
  from ov have "set (all_topics ov) = {''Finance'', ''Regulation''}"
    by (auto simp: comparative_analysis_nonempty combined_text_def t1 t2 set_update_def
        set_add_def)
  with ov inv show ?thesis by blast
qed

text \<open>
  C5: for a non-empty list, with the topic list of an article being what
  \<open>extract_topics\<close> returns on its title, a space and its summary, \<open>all_topics\<close> holds
  the union of the topic lists, \<open>common_topics\<close> their intersection, and
  \<open>topic_frequency\<close> maps every member of \<open>all_topics\<close>, and nothing else, to the
  number of articles whose topic list contains it. Topics attached to the articles
  beforehand do not enter the result.
\<close>

theorem topic_overlap_from_classifier:
  assumes "articles \<noteq> []"
  shows "\<exists>ov. topic_overlap (snd (comparative_analysis articles)) = Some ov \<and>
     set (all_topics ov) = (\<Union>a\<in>set articles. set (extract_topics (combined_text a))) \<and>
     set (common_topics ov) = (\<Inter>a\<in>set articles. set (extract_topics (combined_text a))) \<and>
     distinct (all_topics ov) \<and>
     topic_frequency ov =
       map (\<lambda>t. (t, length (filter (\<lambda>a. t \<in> set (extract_topics (combined_text a))) articles)))
         (all_topics ov) \<and>
     (\<forall>f. snd (comparative_analysis (map (\<lambda>a. a\<lparr>topics := f a\<rparr>) articles)) =
          snd (comparative_analysis articles))"
  using assms
  by (simp add: comparative_analysis_nonempty[OF assms] all_topics_members
      common_topics_members topic_frequency_counts distinct_set_update
      comparative_analysis_topics_irrelevant
      del: set_concat)

theorem topic_overlap_from_classifier_witness:
  "\<exists>ov. topic_overlap (snd (comparative_analysis
       [\<lparr>title = Some ''Stock rally'', summary = Some ''Shares rise'', source = None,
         link = None, date = None, sentiment = Some ''Positive'', topics = Some [''Gossip'']\<rparr>,
        \<lparr>title = Some ''Stock recall'', summary = Some ''Lawsuit filed'', source = None,
         link = None, date = None, sentiment = Some ''Negative'', topics = None\<rparr>])) = Some ov \<and>
     set (all_topics ov) = {''Finance'', ''Regulation''} \<and>
     set (common_topics ov) = {''Finance''} \<and>
     set (topic_frequency ov) = {(''Finance'', 2), (''Regulation'', 1)}"
proof -
  let ?a1 = "\<lparr>title = Some ''Stock rally'', summary = Some ''Shares rise'', source = None,
         link = None, date = None, sentiment = Some ''Positive'', topics = Some [''Gossip'']\<rparr>"
  let ?a2 = "\<lparr>title = Some ''Stock recall'', summary = Some ''Lawsuit filed'', source = None,
         link = None, date = None, sentiment = Some ''Negative'', topics = None\<rparr>"
  have t1: "extract_topics (combined_text ?a1) = [''Finance'']" by code_simp
  have t2: "extract_topics (combined_text ?a2) = [''Finance'', ''Regulation'']" by code_simp
  have "[?a1, ?a2] \<noteq> []" by simp
  from topic_overlap_from_classifier[OF this] obtain ov where
    ov: "topic_overlap (snd (comparative_analysis [?a1, ?a2])) = Some ov"
    and al: "set (all_topics ov) = (\<Union>a\<in>set [?a1, ?a2]. set (extract_topics (combined_text a)))"
    and co: "set (common_topics ov) = (\<Inter>a\<in>set [?a1, ?a2]. set (extract_topics (combined_text a)))"
    and fr: "topic_frequency ov =
       map (\<lambda>t. (t, length (filter (\<lambda>a. t \<in> set (extract_topics (combined_text a))) [?a1, ?a2])))
         (all_topics ov)"
    by blast
  from al have al': "set (all_topics ov) = {''Finance'', ''Regulation''}"
    by (simp only: list.set UN_insert UN_empty t1 t2) auto
  from co have co': "set (common_topics ov) = {''Finance''}"
    by (simp only: list.set INT_insert INT_empty t1 t2) auto
  have "set (topic_frequency ov) =
      (\<lambda>t. (t, length (filter (\<lambda>a. t \<in> set (extract_topics (combined_text a))) [?a1, ?a2]))) `
        set (all_topics ov)"
    by (subst fr) simp
  also have "\<dots> = {(''Finance'', 2), (''Regulation'', 1)}"
    unfolding al' by (simp only: image_insert image_empty filter.simps t1 t2)
      (simp add: numeral_2_eq_2)
  finally show ?thesis using ov al' co' by blast
qed

section \<open>Coverage differences\<close>

lemma coverage_nonempty_iff:
  assumes "sentiment_counts \<noteq> []"
  shows "coverage xs sentiment_counts \<noteq> [] \<longleftrightarrow>
           2 \<le> length xs \<and> 2 \<le> card (get_sentiment ` set xs)"
proof -
  from assms obtain k v d where "sentiment_counts = (k, v) # d"
    by (cases sentiment_counts) auto
  then show ?thesis
    by (simp add: coverage_def Let_def length_set_update_empty)
qed

lemma coverage_gate_iff:
  "(coverage_differences (snd (comparative_analysis articles)) \<noteq> []) =
     (2 \<le> length articles \<and> 2 \<le> card (get_sentiment ` set articles))"
proof (cases "articles = []")
  case True
  then show ?thesis by (simp add: comparative_analysis_def)
next
  case False
  then have "count_sentiments articles [] \<noteq> []" by (rule count_sentiments_nonempty)
  from coverage_nonempty_iff[OF this] show ?thesis
    by (simp add: comparative_analysis_nonempty[OF False] image_image)
qed

lemma one_label_card:
  "card (get_sentiment ` set (map (\<lambda>a. a\<lparr>sentiment := s\<rparr>) xs)) \<le> 1"
proof -
  have "get_sentiment ` set (map (\<lambda>a. a\<lparr>sentiment := s\<rparr>) xs) \<subseteq>
        {case s of None \<Rightarrow> ''Unknown'' | Some l \<Rightarrow> l}"
    by (auto simp: get_sentiment_def)
  then have "card (get_sentiment ` set (map (\<lambda>a. a\<lparr>sentiment := s\<rparr>) xs)) \<le>
             card {case s of None \<Rightarrow> ''Unknown'' | Some l \<Rightarrow> l}"
    by (intro card_mono) simp_all
  then show ?thesis by simp
qed

text \<open>
  C6: the list of coverage differences is non-empty exactly when there are at least two
  articles and at least two distinct sentiment labels among them, a missing sentiment
  being the label "Unknown". In particular it is empty for a single article, and for
  any list whose articles all carry the same sentiment entry.
\<close>

theorem coverage_differences_gate:
  "(coverage_differences (snd (comparative_analysis articles)) \<noteq> []) =
     (2 \<le> length articles \<and> 2 \<le> card (get_sentiment ` set articles)) \<and>
   coverage_differences (snd (comparative_analysis [a])) = [] \<and>
   coverage_differences (snd (comparative_analysis (map (\<lambda>a. a\<lparr>sentiment := s\<rparr>) xs))) = []"
proof (intro conjI)
  show "(coverage_differences (snd (comparative_analysis articles)) \<noteq> []) =
     (2 \<le> length articles \<and> 2 \<le> card (get_sentiment ` set articles))"
    by (rule coverage_gate_iff)
  have "\<not> coverage_differences (snd (comparative_analysis [a])) \<noteq> []"
    unfolding coverage_gate_iff by simp
  then show "coverage_differences (snd (comparative_analysis [a])) = []" by simp
  have "\<not> 2 \<le> card (get_sentiment ` set (map (\<lambda>a. a\<lparr>sentiment := s\<rparr>) xs))"
    using one_label_card[of s xs] by simp
  then have "\<not> coverage_differences
      (snd (comparative_analysis (map (\<lambda>a. a\<lparr>sentiment := s\<rparr>) xs))) \<noteq> []"
    unfolding coverage_gate_iff by simp
  then show "coverage_differences
      (snd (comparative_analysis (map (\<lambda>a. a\<lparr>sentiment := s\<rparr>) xs))) = []" by simp
qed

lemma get_topics_after_update [simp]: "get_topics (a\<lparr>topics := Some ts\<rparr>) = ts"
  by (simp add: get_topics_def)

lemma distinct_gather_topics: "distinct acc \<Longrightarrow> distinct (gather_topics xs acc)"
  by (induction xs arbitrary: acc) (simp_all add: distinct_set_update)

lemma subset_topics_members:
  "set (gather_topics
          (filter (\<lambda>a. sentiment a = Some s)
             (map (\<lambda>a. a\<lparr>topics := Some (extract_topics (combined_text a))\<rparr>) xs)) []) =
   (\<Union>a\<in>{a \<in> set xs. sentiment a = Some s}. set (extract_topics (combined_text a)))"
  by (auto simp: set_gather_topics)

lemma dict_get_member: "distinct (map fst d) \<Longrightarrow> (k, v) \<in> set d \<Longrightarrow> dict_get d k dflt = v"
  by (simp add: dict_get_map_of)

lemma dict_get_absent: "k \<notin> fst ` set d \<Longrightarrow> dict_get d k dflt = dflt"
  by (simp add: dict_get_map_of map_of_eq_None_iff[THEN iffD2])

text \<open>The key chosen by \<open>max\<close> is a label of the list that no other label outnumbers.\<close>

lemma dominant_label:
  assumes sd: "count_sentiments xs [] = (k, v) # d"
  shows "max_by k v d \<in> get_sentiment ` set xs \<and>
         (\<forall>s. length (filter (\<lambda>a. get_sentiment a = s) xs) \<le>
               length (filter (\<lambda>a. get_sentiment a = max_by k v d) xs))"
proof -
  let ?sd = "count_sentiments xs []"
  let ?m = "max_by k v d"
  have dist: "distinct (map fst ?sd)" by (simp add: count_sentiments_distinct)
  have cnt: "dict_get ?sd s 0 = length (filter (\<lambda>a. get_sentiment a = s) xs)" for s
    by (simp add: count_sentiments_get)
  from max_by_greatest[of k v d] obtain c where
    c: "(?m, c) \<in> set ?sd" "\<forall>(k', v')\<in>set ?sd. v' \<le> c"
    unfolding sd by blast
  from c(1) have "?m \<in> fst ` set ?sd" by force
  then have mem: "?m \<in> get_sentiment ` set xs" by (simp add: count_sentiments_keys)
  from dict_get_member[OF dist c(1), of 0] have cm: "length (filter (\<lambda>a. get_sentiment a = ?m) xs) = c"
    by (simp add: cnt)
  have "length (filter (\<lambda>a. get_sentiment a = s) xs) \<le> c" for s
  proof (cases "s \<in> fst ` set ?sd")
    case True
    then obtain n where n: "(s, n) \<in> set ?sd" by force
    with c(2) have "n \<le> c" by blast
    moreover from dict_get_member[OF dist n, of 0] have "length (filter (\<lambda>a. get_sentiment a = s) xs) = n"
      by (simp add: cnt)
    ultimately show ?thesis by simp
  next
    case False
    then have "dict_get ?sd s 0 = 0" by (rule dict_get_absent)
    then show ?thesis by (simp add: cnt)
  qed
  with mem cm show ?thesis by simp
qed

lemma gate_from_positive_negative:
  assumes "a \<in> set xs" "sentiment a = Some ''Positive''"
    and "b \<in> set xs" "sentiment b = Some ''Negative''"
  shows "2 \<le> length xs \<and> 2 \<le> card (get_sentiment ` set xs)"
proof -
  from assms have "{''Positive'', ''Negative''} \<subseteq> get_sentiment ` set xs"
    by (force simp: get_sentiment_def)
  then have "card {''Positive'', ''Negative''} \<le> card (get_sentiment ` set xs)"
    by (intro card_mono) simp_all
  then have two: "2 \<le> card (get_sentiment ` set xs)" by simp
  have "card (get_sentiment ` set xs) \<le> card (set xs)" by (simp add: card_image_le)
  also have "\<dots> \<le> length xs" by (rule card_length)
  finally show ?thesis using two by simp
qed

text \<open>
  C7: when the list holds an article labelled Positive and one labelled Negative, the
  gate is passed and exactly two comparisons are produced. The first names the topics
  found only among the Positive articles and those found only among the Negative ones
  (the topics of an article being those classified from its text), each side reading
  "various topics" when it has none, followed by the fixed impact sentence. The second
  names, in lower case, a sentiment label of the list that no other label outnumbers.
\<close>

theorem coverage_positive_negative_contrast:
  assumes "a \<in> set articles" and "sentiment a = Some ''Positive''"
    and "b \<in> set articles" and "sentiment b = Some ''Negative''"
  shows "\<exists>pos_unique neg_unique max_sentiment.
     coverage_differences (snd (comparative_analysis articles)) =
       [\<lparr>comparison = ''Positive articles focus on '' @
           (if pos_unique = [] then ''various topics'' else join '', '' pos_unique) @
           '', while negative articles focus on '' @
           (if neg_unique = [] then ''various topics'' else join '', '' neg_unique) @ ''.'',
         impact = ''This contrast shows different aspects of the company's public perception.''\<rparr>,
        \<lparr>comparison = ''Overall coverage is predominantly '' @ lower max_sentiment @ ''.'',
         impact = ''The '' @ lower max_sentiment @ '' sentiment suggests '' @
           (if max_sentiment = ''Positive'' then ''a positive public perception''
            else if max_sentiment = ''Negative'' then ''a negative public perception''
            else ''a balanced public perception'') @ ''.''\<rparr>] \<and>
     distinct pos_unique \<and>
     set pos_unique =
       (\<Union>x\<in>{x \<in> set articles. sentiment x = Some ''Positive''}. set (extract_topics (combined_text x))) -
       (\<Union>x\<in>{x \<in> set articles. sentiment x = Some ''Negative''}. set (extract_topics (combined_text x))) \<and>
     distinct neg_unique \<and>
     set neg_unique =
       (\<Union>x\<in>{x \<in> set articles. sentiment x = Some ''Negative''}. set (extract_topics (combined_text x))) -
       (\<Union>x\<in>{x \<in> set articles. sentiment x = Some ''Positive''}. set (extract_topics (combined_text x))) \<and>
     max_sentiment \<in> get_sentiment ` set articles \<and>
     (\<forall>s. length (filter (\<lambda>x. get_sentiment x = s) articles) \<le>
          length (filter (\<lambda>x. get_sentiment x = max_sentiment) articles))"
proof -
  let ?xs = "map (\<lambda>x. x\<lparr>topics := Some (extract_topics (combined_text x))\<rparr>) articles"
  let ?pos = "gather_topics (filter (\<lambda>x. sentiment x = Some ''Positive'') ?xs) []"
  let ?neg = "gather_topics (filter (\<lambda>x. sentiment x = Some ''Negative'') ?xs) []"
  from assms(1) have ne: "articles \<noteq> []" by auto
  then obtain k v d where sd: "count_sentiments articles [] = (k, v) # d"
    using count_sentiments_nonempty[of articles] by (cases "count_sentiments articles []") auto
  from gate_from_positive_negative[OF assms]
  have gate: "2 \<le> length ?xs" "2 \<le> card (get_sentiment ` set ?xs)"
    by (simp_all add: image_image)
  from assms(1,2) have pos: "filter (\<lambda>x. sentiment x = Some ''Positive'') ?xs \<noteq> []"
    by (force simp: filter_empty_conv)
  from assms(3,4) have neg: "filter (\<lambda>x. sentiment x = Some ''Negative'') ?xs \<noteq> []"
    by (force simp: filter_empty_conv)
  have cov: "coverage ?xs ((k, v) # d) =
      [contrast_item (set_difference ?pos ?neg) (set_difference ?neg ?pos),
       trend_item (max_by k v d)]"
    using gate pos neg by (simp add: coverage_def Let_def length_set_update_empty image_image)
  have res: "coverage_differences (snd (comparative_analysis articles)) =
      [contrast_item (set_difference ?pos ?neg) (set_difference ?neg ?pos),
       trend_item (max_by k v d)]"
    by (simp add: comparative_analysis_nonempty[OF ne] sd cov)
  have dpos: "distinct (set_difference ?pos ?neg)"
    by (simp add: set_difference_def distinct_gather_topics)
  have dneg: "distinct (set_difference ?neg ?pos)"
    by (simp add: set_difference_def distinct_gather_topics)
  have spos: "set (set_difference ?pos ?neg) =
       (\<Union>x\<in>{x \<in> set articles. sentiment x = Some ''Positive''}. set (extract_topics (combined_text x))) -
       (\<Union>x\<in>{x \<in> set articles. sentiment x = Some ''Negative''}. set (extract_topics (combined_text x)))"
    by (simp only: set_set_difference subset_topics_members)
  have sneg: "set (set_difference ?neg ?pos) =
       (\<Union>x\<in>{x \<in> set articles. sentiment x = Some ''Negative''}. set (extract_topics (combined_text x))) -
       (\<Union>x\<in>{x \<in> set articles. sentiment x = Some ''Positive''}. set (extract_topics (combined_text x)))"
    by (simp only: set_set_difference subset_topics_members)
  note dom = dominant_label[OF sd]
  show ?thesis
    apply (rule exI[of _ "set_difference ?pos ?neg"])
    apply (rule exI[of _ "set_difference ?neg ?pos"])
    apply (rule exI[of _ "max_by k v d"])
    apply (intro conjI)
    subgoal by (simp add: res contrast_item_def trend_item_def focus_phrase_def)
    subgoal by (rule dpos)
    subgoal by (rule spos)
    subgoal by (rule dneg)
    subgoal by (rule sneg)
    subgoal using dom by blast
    subgoal using dom by blast
    done
qed

theorem coverage_positive_negative_contrast_witness:
  "length (coverage_differences (snd (comparative_analysis
     [\<lparr>title = Some ''Stock rally'', summary = Some ''Shares rise'', source = None,
       link = None, date = None, sentiment = Some ''Positive'', topics = None\<rparr>,
      \<lparr>title = Some ''Recall'', summary = Some ''Lawsuit filed'', source = None,
       link = None, date = None, sentiment = Some ''Negative'', topics = None\<rparr>]))) = 2 \<and>
   map comparison (coverage_differences (snd (comparative_analysis
     [\<lparr>title = Some ''Stock rally'', summary = Some ''Shares rise'', source = None,
       link = None, date = None, sentiment = Some ''Positive'', topics = None\<rparr>,
      \<lparr>title = Some ''Recall'', summary = Some ''Lawsuit filed'', source = None,
       link = None, date = None, sentiment = Some ''Negative'', topics = None\<rparr>]))) =
     [''Positive articles focus on Finance, while negative articles focus on Regulation.'',
      ''Overall coverage is predominantly positive.'']"
proof -
  let ?a = "\<lparr>title = Some ''Stock rally'', summary = Some ''Shares rise'', source = None,
       link = None, date = None, sentiment = Some ''Positive'', topics = None\<rparr>"
  let ?b = "\<lparr>title = Some ''Recall'', summary = Some ''Lawsuit filed'', source = None,
       link = None, date = None, sentiment = Some ''Negative'', topics = None\<rparr>"
  have "?a \<in> set [?a, ?b]" "sentiment ?a = Some ''Positive''"
       "?b \<in> set [?a, ?b]" "sentiment ?b = Some ''Negative''"
    by simp_all
  from coverage_positive_negative_contrast[OF this] obtain c1 c2 where
    "coverage_differences (snd (comparative_analysis [?a, ?b])) = [c1, c2]"
    by blast
  then have len: "length (coverage_differences (snd (comparative_analysis [?a, ?b]))) = 2"
    by simp
  have val: "map comparison (coverage_differences (snd (comparative_analysis [?a, ?b]))) =
     [''Positive articles focus on Finance, while negative articles focus on Regulation.'',
      ''Overall coverage is predominantly positive.'']"
    by code_simp
  from len val show ?thesis by (rule conjI)
qed

section \<open>Articles whose values need not be strings\<close>

lemma raw_get_sentiment_to_raw [simp]: "raw_get_sentiment (to_raw a) = Str (get_sentiment a)"
  by (simp add: raw_get_sentiment_def get_sentiment_def to_raw_def split: option.splits)

lemma raw_combined_text_to_raw [simp]: "raw_combined_text (to_raw a) = combined_text a"
  by (simp add: raw_combined_text_def combined_text_def to_raw_def split: option.splits)

lemma raw_get_topics_to_raw [simp]: "raw_get_topics (to_raw a) = get_topics a"
  by (simp add: raw_get_topics_def get_topics_def to_raw_def)

lemma raw_sentiment_to_raw [simp]: "(raw_sentiment (to_raw a) = Some (Str s)) = (sentiment a = Some s)"
  by (auto simp: to_raw_def)

lemma to_raw_topics_update [simp]: "(to_raw a)\<lparr>raw_topics := ts\<rparr> = to_raw (a\<lparr>topics := ts\<rparr>)"
  by (simp add: to_raw_def)

lemma dict_set_str_keys: "dict_set (str_keys d) (Str k) v = str_keys (dict_set d k v)"
  by (induction d) (auto simp: str_keys_def)

lemma dict_get_str_keys: "dict_get (str_keys d) (Str k) dflt = dict_get d k dflt"
  by (induction d) (auto simp: str_keys_def)

lemma max_by_str_keys: "max_by (Str k) v (str_keys d) = Str (max_by k v d)"
  by (induction d arbitrary: k v) (auto simp: str_keys_def)

lemma raw_count_sentiments_to_raw:
  "raw_count_sentiments (map to_raw xs) (str_keys sc) = str_keys (count_sentiments xs sc)"
  by (induction xs arbitrary: sc) (simp_all add: dict_set_str_keys dict_get_str_keys)

lemma raw_topic_loop_to_raw:
  "raw_topic_loop (map to_raw xs) (map to_raw visited, all_ts, article_ts) =
     (case topic_loop xs (visited, all_ts, article_ts) of
        (visited', all_ts', article_ts') \<Rightarrow> (map to_raw visited', all_ts', article_ts'))"
proof (induction xs arbitrary: visited all_ts article_ts)
  case Nil
  show ?case by simp
next
  case (Cons a xs)
  have "raw_topic_loop (map to_raw (a # xs)) (map to_raw visited, all_ts, article_ts) =
        raw_topic_loop (map to_raw xs)
          (map to_raw (visited @ [a\<lparr>topics := Some (extract_topics (combined_text a))\<rparr>]),
           set_update all_ts (extract_topics (combined_text a)),
           article_ts @ [extract_topics (combined_text a)])"
    by (simp add: Let_def)
  then show ?case by (simp only: Cons.IH) (simp add: Let_def)
qed

lemma raw_gather_topics_to_raw: "raw_gather_topics (map to_raw xs) acc = gather_topics xs acc"
  by (induction xs arbitrary: acc) simp_all

lemma filter_to_raw:
  "filter (\<lambda>a. raw_sentiment a = Some (Str s)) (map to_raw xs) =
   map to_raw (filter (\<lambda>a. sentiment a = Some s) xs)"
  by (induction xs) simp_all

lemma labels_to_raw:
  "length (set_update [] (map raw_get_sentiment (map to_raw xs))) =
   length (set_update [] (map get_sentiment xs))"
proof -
  have "set (map raw_get_sentiment (map to_raw xs)) = Str ` set (map get_sentiment xs)"
    by (auto simp: image_image)
  moreover have "card (Str ` set (map get_sentiment xs)) = card (set (map get_sentiment xs))"
    by (intro card_image) (simp add: inj_on_def)
  ultimately show ?thesis by (simp only: length_set_update_empty)
qed

lemma raw_coverage_to_raw: "raw_coverage (map to_raw xs) (str_keys sc) = Inr (coverage xs sc)"
proof (cases sc)
  case Nil
  then show ?thesis
    by (simp add: raw_coverage_def coverage_def Let_def labels_to_raw filter_to_raw
        raw_gather_topics_to_raw str_keys_def del: map_map)
next
  case (Cons kv d)
  obtain k v where kv: "kv = (k, v)" by (cases kv)
  have sk: "str_keys sc = (Str k, v) # str_keys d" using Cons kv by (simp add: str_keys_def)
  show ?thesis
    unfolding sk
    using Cons kv
    by (simp add: raw_coverage_def coverage_def Let_def labels_to_raw filter_to_raw
        raw_gather_topics_to_raw max_by_str_keys del: map_map)
qed

text \<open>
  On articles whose values are strings the two models agree: the general analysis
  returns, without failure, what the analysis of well-formed articles returns.
\<close>

lemma raw_comparative_analysis_to_raw:
  "raw_comparative_analysis (map to_raw xs) =
     Inr (map to_raw (fst (comparative_analysis xs)),
          \<lparr>raw_sentiment_distribution = str_keys (sentiment_distribution (snd (comparative_analysis xs))),
           raw_topic_overlap = topic_overlap (snd (comparative_analysis xs)),
           raw_coverage_differences = coverage_differences (snd (comparative_analysis xs))\<rparr>)"
proof (cases "xs = []")
  case True
  then show ?thesis by (simp add: raw_comparative_analysis_def comparative_analysis_def str_keys_def)
next
  case False
  obtain v A T where tl: "topic_loop xs ([], [], []) = (v, A, T)"
    by (cases "topic_loop xs ([], [], [])") auto
  have rtl: "raw_topic_loop (map to_raw xs) ([], [], []) = (map to_raw v, A, T)"
    using raw_topic_loop_to_raw[of xs "[]" "[]" "[]"] by (simp add: tl)
  have rc: "raw_count_sentiments (map to_raw xs) [] = str_keys (count_sentiments xs [])"
    using raw_count_sentiments_to_raw[of xs "[]"] by (simp add: str_keys_def)
  from False show ?thesis
    by (simp add: raw_comparative_analysis_def comparative_analysis_def Let_def tl rtl rc
        raw_coverage_to_raw)
qed

lemma raw_count_sentiments_get:
  "dict_get (raw_count_sentiments xs sc) s 0 =
     dict_get sc s 0 + length (filter (\<lambda>a. raw_get_sentiment a = s) xs)"
  by (induction xs arbitrary: sc) (auto simp: dict_get_dict_set)

lemma raw_count_sentiments_keys:
  "fst ` set (raw_count_sentiments xs sc) = fst ` set sc \<union> raw_get_sentiment ` set xs"
  by (induction xs arbitrary: sc) (auto simp: keys_dict_set)

lemma raw_count_sentiments_sum:
  "sum_list (map snd (raw_count_sentiments xs sc)) = sum_list (map snd sc) + length xs"
  by (induction xs arbitrary: sc) (simp_all add: sum_dict_incr[simplified])

lemma max_by_is_key: "max_by k v d \<in> fst ` set ((k, v) # d)"
proof -
  from max_by_greatest[of k v d] obtain c where "(max_by k v d, c) \<in> set ((k, v) # d)"
    by blast
  then show ?thesis by force
qed

text \<open>The coverage part fails only on a dictionary that has the key \<open>None\<close>.\<close>

lemma raw_coverage_succeeds:
  assumes "PyNone \<notin> fst ` set sentiment_counts"
  shows "\<exists>comparisons. raw_coverage xs sentiment_counts = Inr comparisons"
proof (cases sentiment_counts)
  case Nil
  then show ?thesis by (simp add: raw_coverage_def Let_def)
next
  case (Cons kv d)
  obtain k v where kv: "kv = (k, v)" by (cases kv)
  have "max_by k v d \<in> fst ` set sentiment_counts"
    using max_by_is_key[of k v d] Cons kv by simp
  with assms have "max_by k v d \<noteq> PyNone" by metis
  then obtain m where "max_by k v d = Str m" by (cases "max_by k v d") auto
  with Cons kv show ?thesis by (simp add: raw_coverage_def Let_def)
qed

lemma raw_comparative_analysis_succeeds:
  assumes "\<forall>a\<in>set articles. raw_sentiment a \<noteq> Some PyNone"
  shows "\<exists>articles' r. raw_comparative_analysis articles = Inr (articles', r) \<and>
      raw_sentiment_distribution r = raw_count_sentiments articles []"
proof (cases "articles = []")
  case True
  then show ?thesis by (simp add: raw_comparative_analysis_def)
next
  case False
  obtain xs' A T where tl: "raw_topic_loop articles ([], [], []) = (xs', A, T)"
    by (cases "raw_topic_loop articles ([], [], [])") auto
  from assms have "PyNone \<notin> raw_get_sentiment ` set articles"
    by (auto simp: raw_get_sentiment_def split: option.splits)
  then have "PyNone \<notin> fst ` set (raw_count_sentiments articles [])"
    by (simp add: raw_count_sentiments_keys)
  from raw_coverage_succeeds[OF this] obtain cs where
    "raw_coverage xs' (raw_count_sentiments articles []) = Inr cs" by blast
  with False show ?thesis by (simp add: raw_comparative_analysis_def tl Let_def)
qed

text \<open>
  C9 (as the code has it): an article without a sentiment entry is read as having the
  sentiment "Unknown" and counted under that label. On every list in which each
  sentiment entry that is present is a string, whatever else is missing, the analysis
  returns a result; in it the count under "Unknown" is the number of articles whose
  sentiment is missing or is "Unknown", and "Unknown" is a key as soon as one article
  lacks its sentiment.
\<close>

theorem missing_sentiment_counted_unknown:
  assumes "\<forall>a\<in>set articles. raw_sentiment a \<noteq> Some PyNone"
  shows "\<exists>articles' r. raw_comparative_analysis articles = Inr (articles', r) \<and>
     dict_get (raw_sentiment_distribution r) (Str ''Unknown'') 0 =
       length (filter (\<lambda>a. raw_sentiment a = None \<or> raw_sentiment a = Some (Str ''Unknown''))
                 articles) \<and>
     sum_list (map snd (raw_sentiment_distribution r)) = length articles \<and>
     ((\<exists>a\<in>set articles. raw_sentiment a = None) \<longrightarrow>
        Str ''Unknown'' \<in> fst ` set (raw_sentiment_distribution r))"
proof -
  from raw_comparative_analysis_succeeds[OF assms] obtain articles' r where
    res: "raw_comparative_analysis articles = Inr (articles', r)"
    and sd: "raw_sentiment_distribution r = raw_count_sentiments articles []"
    by blast
  have "(\<lambda>a. raw_get_sentiment a = Str ''Unknown'') =
        (\<lambda>a. raw_sentiment a = None \<or> raw_sentiment a = Some (Str ''Unknown''))"
    by (auto simp: raw_get_sentiment_def fun_eq_iff split: option.splits)
  then have cnt: "dict_get (raw_sentiment_distribution r) (Str ''Unknown'') 0 =
       length (filter (\<lambda>a. raw_sentiment a = None \<or> raw_sentiment a = Some (Str ''Unknown''))
                 articles)"
    by (simp add: sd raw_count_sentiments_get)
  have total: "sum_list (map snd (raw_sentiment_distribution r)) = length articles"
    by (simp add: sd raw_count_sentiments_sum)
  have key: "(\<exists>a\<in>set articles. raw_sentiment a = None) \<longrightarrow>
        Str ''Unknown'' \<in> fst ` set (raw_sentiment_distribution r)"
  proof
    assume "\<exists>a\<in>set articles. raw_sentiment a = None"
    then obtain a where "a \<in> set articles" "raw_get_sentiment a = Str ''Unknown''"
      by (auto simp: raw_get_sentiment_def)
    then have "Str ''Unknown'' \<in> raw_get_sentiment ` set articles" by force
    then show "Str ''Unknown'' \<in> fst ` set (raw_sentiment_distribution r)"
      by (simp add: sd raw_count_sentiments_keys)
  qed
  from res cnt total key show ?thesis by blast
qed

theorem missing_sentiment_counted_unknown_witness:
  "raw_comparative_analysis
     [\<lparr>raw_title = None, raw_summary = Some (Str ''Shares rise''), raw_sentiment = None,
       raw_topics = None\<rparr>,
      \<lparr>raw_title = Some (Str ''Recall''), raw_summary = Some (Str ''Lawsuit filed''),
       raw_sentiment = Some (Str ''Negative''), raw_topics = None\<rparr>] \<noteq> Inl AttributeError \<and>
   map_sum id (raw_sentiment_distribution \<circ> snd) (raw_comparative_analysis
     [\<lparr>raw_title = None, raw_summary = Some (Str ''Shares rise''), raw_sentiment = None,
       raw_topics = None\<rparr>,
      \<lparr>raw_title = Some (Str ''Recall''), raw_summary = Some (Str ''Lawsuit filed''),
       raw_sentiment = Some (Str ''Negative''), raw_topics = None\<rparr>]) =
     Inr [(Str ''Unknown'', 1), (Str ''Negative'', 1)]"
proof -
  let ?as = "[\<lparr>raw_title = None, raw_summary = Some (Str ''Shares rise''), raw_sentiment = None,
       raw_topics = None\<rparr>,
      \<lparr>raw_title = Some (Str ''Recall''), raw_summary = Some (Str ''Lawsuit filed''),
       raw_sentiment = Some (Str ''Negative''), raw_topics = None\<rparr>]"
  have "\<forall>a\<in>set ?as. raw_sentiment a \<noteq> Some PyNone" by simp
  from missing_sentiment_counted_unknown[OF this] obtain articles' r where
    "raw_comparative_analysis ?as = Inr (articles', r)" by blast
  then have ok: "raw_comparative_analysis ?as \<noteq> Inl AttributeError" by simp
  have val: "map_sum id (raw_sentiment_distribution \<circ> snd) (raw_comparative_analysis ?as) =
     Inr [(Str ''Unknown'', 1), (Str ''Negative'', 1)]"
    by code_simp
  from ok val show ?thesis by (rule conjI)
qed

text \<open>
  A sentiment entry that is present and holds \<open>None\<close> makes the analysis raise: with
  one such article and a Positive one the gate is open, \<open>None\<close> is the first key with
  the greatest count, and \<open>None\<close> has no \<open>lower\<close>.
\<close>

theorem null_sentiment_raises_counterexample:
  "raw_comparative_analysis
     [\<lparr>raw_title = Some (Str ''Stock rally''), raw_summary = Some (Str ''Shares rise''),
       raw_sentiment = Some PyNone, raw_topics = None\<rparr>,
      \<lparr>raw_title = Some (Str ''Recall''), raw_summary = Some (Str ''Lawsuit filed''),
       raw_sentiment = Some (Str ''Positive''), raw_topics = None\<rparr>] = Inl AttributeError"
  by code_simp

end
